theory Spec2Isabelle
  imports Main
begin

section \<open>The collaborators: warehouse connection and pandas\<close>

text \<open>
  The tools of \<^verbatim>\<open>Toolkit.py\<close> and the completion client of \<^verbatim>\<open>Agent.py\<close> talk to a
  Snowflake connection through two library calls: \<^verbatim>\<open>pd.read_sql(query, conn)\<close> and
  \<^verbatim>\<open>conn.cursor().execute(query)\<close>. Neither library is part of the repository, so both
  are parameters of the model. A call may raise; its answer may depend on everything that
  was sent to the connection before (a \<^verbatim>\<open>CREATE\<close> changes what a later \<^verbatim>\<open>DESCRIBE\<close>
  returns). The state threaded through every function is therefore the list of requests
  the connection has received so far, oldest first.
\<close>

text \<open>A Python exception: its class name and the text \<^verbatim>\<open>str(e)\<close> gives.\<close>

datatype exn = Exn string string

fun exn_str :: "exn \<Rightarrow> string" where
  "exn_str (Exn cls msg) = msg"

text \<open>
  Whether \<^verbatim>\<open>except Exception\<close> catches it. The classes that derive from
  \<^verbatim>\<open>BaseException\<close> without deriving from \<^verbatim>\<open>Exception\<close> are not caught.
\<close>

fun is_Exception :: "exn \<Rightarrow> bool" where
  "is_Exception (Exn cls msg) =
     (cls \<notin> set [''BaseException'', ''BaseExceptionGroup'', ''GeneratorExit'',
                  ''KeyboardInterrupt'', ''SystemExit'', ''CancelledError''])"

text \<open>A \<^verbatim>\<open>DataFrame\<close>: its rows, each a list of cells, every cell as its text.\<close>

type_synonym dataframe = "string list list"

datatype request = ReadSql string | CursorExecute string

type_synonym log = "request list"

text \<open>
  \<open>read_sql\<close> is \<^verbatim>\<open>pd.read_sql(query, conn)\<close>. \<open>cursor_execute\<close> stands for the sequence
  \<^verbatim>\<open>cursor = conn.cursor(); cursor.execute(query); cursor.sfqid; cursor.close()\<close>: it
  raises when any of the four does, and otherwise yields the \<^verbatim>\<open>sfqid\<close> the connection
  assigned to that execution. \<open>to_string\<close> is \<^verbatim>\<open>DataFrame.to_string()\<close>.
\<close>

record env =
  read_sql :: "log \<Rightarrow> string \<Rightarrow> exn + dataframe"
  cursor_execute :: "log \<Rightarrow> string \<Rightarrow> exn + string"
  to_string :: "dataframe \<Rightarrow> string"

text \<open>
  The expression \<^verbatim>\<open>pd.read_sql(query, self.conn)\<close> is evaluated in the namespace of the
  module that contains it: when the module binds no name \<^verbatim>\<open>pd\<close>, evaluating it raises
  \<^verbatim>\<open>NameError\<close> before anything reaches the connection.
\<close>

definition Toolkit_globals :: "string list" where
  "Toolkit_globals =
     [''logging'', ''List'', ''Optional'', ''Type'', ''Sequence'', ''Dict'', ''Any'', ''Union'',
      ''Tuple'', ''BaseLanguageModel'', ''Field'', ''BaseModel'', ''BaseToolkit'', ''BaseTool'',
      ''CallbackManagerForToolRun'', ''pd'', ''logger'', ''_InfoSQLDatabaseToolInput'',
      ''InfoSnowflakeTableTool'', ''_QuerySQLCheckerToolInput'', ''QuerySQLCheckerTool'',
      ''_QuerySQLDataBaseToolInput'', ''QuerySQLDataBaseTool'', ''AgentToolkit'']"

definition Agent_globals :: "string list" where
  "Agent_globals =
     [''logging'', ''Dict'', ''Any'', ''List'', ''Optional'', ''AgentExecutor'',
      ''initialize_agent'', ''LLM'', ''ChatPromptTemplate'', ''MessagesPlaceholder'', ''Tool'',
      ''LLMChain'', ''PromptTemplate'', ''AgentToolkit'', ''logger'', ''SnowflakeCortexLLM'',
      ''Agent'']"

definition name_error :: "string \<Rightarrow> exn" where
  "name_error n = Exn ''NameError'' (''name '' @ [CHR 0x27] @ n @ [CHR 0x27] @ '' is not defined'')"

definition pd_read_sql :: "string list \<Rightarrow> env \<Rightarrow> string \<Rightarrow> log \<Rightarrow> (exn + dataframe) \<times> log" where
  "pd_read_sql globals e query l =
     (if ''pd'' \<in> set globals
      then (read_sql e l query, l @ [ReadSql query])
      else (Inl (name_error ''pd''), l))"

section \<open>Query Execution Tool\<close>

text \<open>
  \<^verbatim>\<open>QuerySQLDataBaseTool._run\<close> returns a pair whose first component is either the error
  text or the frame, and whose second is the statement identifier or \<^verbatim>\<open>None\<close>. The
  handler is \<^verbatim>\<open>except Exception as e\<close>: an exception of class \<^verbatim>\<open>Exception\<close> raised inside
  the \<^verbatim>\<open>try\<close> block becomes the error pair, any other leaves the tool as it is.
  \<^verbatim>\<open>cursor.sfqid\<close> is returned as the connection gave it.
\<close>

datatype payload = Message string | Table dataframe

definition except_Exception :: "exn \<Rightarrow> exn + payload \<times> string option" where
  "except_Exception ex =
     (if is_Exception ex then Inr (Message (''Error: '' @ exn_str ex), None) else Inl ex)"

definition QuerySQLDataBaseTool_run ::
  "env \<Rightarrow> string \<Rightarrow> log \<Rightarrow> (exn + payload \<times> string option) \<times> log" where
  "QuerySQLDataBaseTool_run e query l =
     (case pd_read_sql Toolkit_globals e query l of
        (Inl ex, l1) \<Rightarrow> (except_Exception ex, l1)
      | (Inr results, l1) \<Rightarrow>
          (case cursor_execute e l1 query of
             Inl ex \<Rightarrow> (except_Exception ex, l1 @ [CursorExecute query])
           | Inr query_id \<Rightarrow> (Inr (Table results, Some query_id), l1 @ [CursorExecute query])))"

section \<open>Python string operations\<close>

definition newline :: char where
  "newline = CHR 0x0A"

definition squote :: char where
  "squote = CHR 0x27"

definition dquote :: char where
  "dquote = CHR 0x22"

definition backslash :: char where
  "backslash = CHR 0x5C"

text \<open>
  \<^verbatim>\<open>s.split(sep)\<close> for a one-character separator: the pieces between the separators,
  nothing stripped, empty pieces kept; the empty string gives one empty piece.
\<close>

fun split_on :: "char \<Rightarrow> string \<Rightarrow> string list" where
  "split_on sep [] = [[]]"
| "split_on sep (c # cs) =
     (if c = sep then [] # split_on sep cs
      else (case split_on sep cs of
              [] \<Rightarrow> [[c]]
            | t # ts \<Rightarrow> (c # t) # ts))"

text \<open>
  A comma-separated list, written from its pieces: \<^verbatim>\<open>",".join(names)\<close>. The schema
  tool's input is such a text, and the pieces are what the tool is asked about.
\<close>

fun join_commas :: "string list \<Rightarrow> string" where
  "join_commas [] = []"
| "join_commas [t] = t"
| "join_commas (t # u # ts) = t @ CHR '','' # join_commas (u # ts)"

text \<open>\<^verbatim>\<open>s.replace(old, new)\<close> for a one-character \<^verbatim>\<open>old\<close>.\<close>

definition replace_char :: "char \<Rightarrow> string \<Rightarrow> string \<Rightarrow> string" where
  "replace_char old new s = concat (map (\<lambda>c. if c = old then new else [c]) s)"

text \<open>
  \<^verbatim>\<open>template.format(**kw)\<close>. The scan goes left to right over the template only: a
  doubled brace is a literal brace, a single \<^verbatim>\<open>{\<close> opens a replacement field that runs to
  the next \<^verbatim>\<open>}\<close>, and the value looked up for a field is appended as it is, never scanned
  again. The second argument is the field name read so far, or \<open>None\<close> outside a field.
  Fields are plain keyword names, which is all the template of this repository uses; a
  field with a conversion, a format spec, an attribute or an index is outside the model
  and reported as such.
\<close>

definition value_error :: "string \<Rightarrow> exn" where
  "value_error msg = Exn ''ValueError'' msg"

fun get_value :: "(string \<times> string) list \<Rightarrow> string \<Rightarrow> exn + string" where
  "get_value kw name =
     (if name = [] \<or> list_all (\<lambda>c. c \<in> set ''0123456789'') name
      then Inl (Exn ''IndexError'' ''Replacement index out of range for positional args tuple'')
      else (case map_of kw name of
              None \<Rightarrow> Inl (Exn ''KeyError'' ([squote] @ name @ [squote]))
            | Some v \<Rightarrow> Inr v))"

fun prepend :: "string \<Rightarrow> exn + string \<Rightarrow> exn + string" where
  "prepend v (Inl ex) = Inl ex"
| "prepend v (Inr s) = Inr (v @ s)"

fun format_scan :: "(string \<times> string) list \<Rightarrow> string option \<Rightarrow> string \<Rightarrow> exn + string" where
  "format_scan kw None [] = Inr []"
| "format_scan kw None [c] =
     (if c = CHR ''{'' then Inl (value_error ''Single { encountered in format string'')
      else if c = CHR ''}'' then Inl (value_error ''Single } encountered in format string'')
      else Inr [c])"
| "format_scan kw None (c # d # cs) =
     (if c = CHR ''{'' then
        (if d = CHR ''{'' then prepend ''{'' (format_scan kw None cs)
         else format_scan kw (Some []) (d # cs))
      else if c = CHR ''}'' then
        (if d = CHR ''}'' then prepend ''}'' (format_scan kw None cs)
         else Inl (value_error ''Single } encountered in format string''))
      else prepend [c] (format_scan kw None (d # cs)))"
| "format_scan kw (Some name) [] = Inl (value_error ''expected } before end of string'')"
| "format_scan kw (Some name) (c # cs) =
     (if c = CHR ''}'' then
        (case get_value kw name of
           Inl ex \<Rightarrow> Inl ex
         | Inr v \<Rightarrow> prepend v (format_scan kw None cs))
      else if c = CHR ''{'' then Inl (value_error ''unexpected { in field name'')
      else if c \<in> set ''!:.['' then Inl (Exn ''NotModelled'' ''conversion, format spec, attribute or index'')
      else format_scan kw (Some (name @ [c])) cs)"

definition format_py :: "string \<Rightarrow> (string \<times> string) list \<Rightarrow> exn + string" where
  "format_py template kw = format_scan kw None template"

text \<open>\<^verbatim>\<open>df.iloc[0, 0]\<close>: the first cell of the first row, \<^verbatim>\<open>IndexError\<close> when there is none.\<close>

fun iloc_0_0 :: "dataframe \<Rightarrow> exn + string" where
  "iloc_0_0 ((c # row) # rows) = Inr c"
| "iloc_0_0 df = Inl (Exn ''IndexError'' ''single positional indexer is out-of-bounds'')"

section \<open>Schema Lookup Tool\<close>

text \<open>
  \<^verbatim>\<open>InfoSnowflakeTableTool._run\<close>: the loop over the pieces of \<^verbatim>\<open>table_names.split(",")\<close>,
  with \<open>output_schema\<close> as the accumulator. Nothing in the loop catches an exception, so
  the first \<^verbatim>\<open>pd.read_sql\<close> that raises ends the call with that exception.
\<close>

fun schema_loop :: "env \<Rightarrow> string list \<Rightarrow> string \<Rightarrow> log \<Rightarrow> (exn + string) \<times> log" where
  "schema_loop e [] output_schema l = (Inr output_schema, l)"
| "schema_loop e (t # ts) output_schema l =
     (case pd_read_sql Toolkit_globals e (''DESCRIBE TABLE '' @ t) l of
        (Inl ex, l1) \<Rightarrow> (Inl ex, l1)
      | (Inr schema, l1) \<Rightarrow>
          schema_loop e ts
            (output_schema @ ''Schema for table '' @ t @ '':'' @ [newline]
               @ to_string e schema @ [newline, newline]) l1)"

definition InfoSnowflakeTableTool_run :: "env \<Rightarrow> string \<Rightarrow> log \<Rightarrow> (exn + string) \<times> log" where
  "InfoSnowflakeTableTool_run e table_names l =
     schema_loop e (split_on CHR '','' table_names) [] l"

section \<open>Query Checker Tool\<close>

definition template :: string where
  "template =
      [newline] @
      ''    {query}'' @
      [newline] @
      ''    Double check the {dialect} query above for common mistakes, including:'' @
      [newline] @
      ''    - Using NOT IN with NULL values'' @
      [newline] @
      ''    - Using UNION when UNION ALL should have been used'' @
      [newline] @
      ''    - Using BETWEEN for exclusive ranges'' @
      [newline] @
      ''    - Data type mismatch in predicates'' @
      [newline] @
      ''    - Properly quoting identifiers'' @
      [newline] @
      ''    - Using the correct number of arguments for functions'' @
      [newline] @
      ''    - Casting to the correct data type'' @
      [newline] @
      ''    - Using the proper columns for joins'' @
      [newline] @
      [newline] @
      ''    If there are any of the above mistakes, rewrite the query. If there are no mistakes, just reproduce the original query.'' @
      [newline] @
      [newline] @
      ''    Output the final SQL query only.'' @
      [newline] @
      [newline] @
      ''    SQL Query: ''"

text \<open>Line 88: \<^verbatim>\<open>query.replace('"', '\\"').replace("'", "\\'")\<close>.\<close>

definition escape_quotes :: "string \<Rightarrow> string" where
  "escape_quotes query =
     replace_char squote [backslash, squote] (replace_char dquote [backslash, dquote] query)"

text \<open>Line 89: \<^verbatim>\<open>self.template.format(query=escaped_query, dialect="Snowflake")\<close>.\<close>

definition checker_prompt :: "string \<Rightarrow> exn + string" where
  "checker_prompt query =
     format_py template [(''query'', escape_quotes query), (''dialect'', ''Snowflake'')]"

text \<open>
  Line 90 of \<^verbatim>\<open>Toolkit.py\<close> and line 19 of \<^verbatim>\<open>Agent.py\<close>: the completion request, an
  f-string around the prompt.
\<close>

definition cortex_query :: "string \<Rightarrow> string" where
  "cortex_query prompt =
     ''SELECT SNOWFLAKE.CORTEX.COMPLETE('' @ [squote] @ ''snowflake-arctic'' @ [squote]
       @ '', '' @ [squote] @ prompt @ [squote] @ '');''"

definition QuerySQLCheckerTool_run :: "env \<Rightarrow> string \<Rightarrow> log \<Rightarrow> (exn + string) \<times> log" where
  "QuerySQLCheckerTool_run e query l =
     (case checker_prompt query of
        Inl ex \<Rightarrow> (Inl ex, l)
      | Inr prompt \<Rightarrow>
          (case pd_read_sql Toolkit_globals e (cortex_query prompt) l of
             (Inl ex, l1) \<Rightarrow> (Inl ex, l1)
           | (Inr result, l1) \<Rightarrow> (iloc_0_0 result, l1)))"

section \<open>Completion Client\<close>

text \<open>
  The body of \<^verbatim>\<open>SnowflakeCortexLLM._call\<close>, with the namespace it runs in as a parameter.
  \<^verbatim>\<open>Agent.py\<close> has no \<^verbatim>\<open>import pandas as pd\<close>; \<^verbatim>\<open>Toolkit.py\<close> and \<^verbatim>\<open>Try.py\<close>, which
  contain the same request, have it.
\<close>

definition cortex_call :: "string list \<Rightarrow> env \<Rightarrow> string \<Rightarrow> log \<Rightarrow> (exn + string) \<times> log" where
  "cortex_call globals e prompt l =
     (case pd_read_sql globals e (cortex_query prompt) l of
        (Inl ex, l1) \<Rightarrow> (Inl ex, l1)
      | (Inr result, l1) \<Rightarrow> (iloc_0_0 result, l1))"

definition SnowflakeCortexLLM_call :: "env \<Rightarrow> string \<Rightarrow> log \<Rightarrow> (exn + string) \<times> log" where
  "SnowflakeCortexLLM_call = cortex_call Agent_globals"

section \<open>The filled template\<close>

text \<open>
  What \<^verbatim>\<open>template.format(query=q, dialect="Snowflake")\<close> is expected to give: the text of
  the template before the \<^verbatim>\<open>{query}\<close> field, then \<open>q\<close>, then the rest of the template with
  \<^verbatim>\<open>{dialect}\<close> filled in. That \<open>format_py\<close> computes exactly this is lemma
  \<open>checker_prompt_eq\<close> below.
\<close>

definition template_head :: string where
  "template_head = [newline] @ ''    ''"

definition template_tail :: string where
  "template_tail =
      [newline] @
      ''    Double check the Snowflake query above for common mistakes, including:'' @
      [newline] @
      ''    - Using NOT IN with NULL values'' @
      [newline] @
      ''    - Using UNION when UNION ALL should have been used'' @
      [newline] @
      ''    - Using BETWEEN for exclusive ranges'' @
      [newline] @
      ''    - Data type mismatch in predicates'' @
      [newline] @
      ''    - Properly quoting identifiers'' @
      [newline] @
      ''    - Using the correct number of arguments for functions'' @
      [newline] @
      ''    - Casting to the correct data type'' @
      [newline] @
      ''    - Using the proper columns for joins'' @
      [newline] @
      [newline] @
      ''    If there are any of the above mistakes, rewrite the query. If there are no mistakes, just reproduce the original query.'' @
      [newline] @
      [newline] @
      ''    Output the final SQL query only.'' @
      [newline] @
      [newline] @
      ''    SQL Query: ''"


section \<open>Connections used as test doubles\<close>

text \<open>
  \<open>stub_conn\<close> knows the query \<^verbatim>\<open>SELECT 1\<close> and rejects everything else; the identifier
  it assigns grows with the number of requests it has seen, so two executions of one
  statement get different identifiers. \<open>catalog_conn\<close> describes every table but the one
  named \<^verbatim>\<open>missing\<close>. \<open>blank_conn\<close> answers every request with one empty text cell,
  \<open>no_rows_conn\<close> with a frame that has no rows, and \<open>parrot_conn\<close> with the text of the
  request itself. \<open>empty_id_conn\<close> executes every statement and reports the empty text as
  its identifier. \<open>interrupt_conn\<close> is interrupted from the keyboard during every request.
\<close>

definition stub_conn :: env where
  "stub_conn =
     \<lparr> read_sql = (\<lambda>l q. if q = ''SELECT 1'' then Inr [[''1'']]
                          else Inl (Exn ''ProgrammingError'' ''SQL compilation error'')),
       cursor_execute = (\<lambda>l q. Inr (''stub-id-'' @ replicate (length l) CHR ''x'')),
       to_string = (\<lambda>df. concat (map concat df)) \<rparr>"

definition catalog_conn :: env where
  "catalog_conn =
     \<lparr> read_sql = (\<lambda>l q. if q = ''DESCRIBE TABLE missing''
                          then Inl (Exn ''ProgrammingError'' ''Table does not exist'')
                          else Inr [[drop 15 q, ''NUMBER'']]),
       cursor_execute = (\<lambda>l q. Inr ''stub-id-123''),
       to_string = (\<lambda>df. concat (map concat df)) \<rparr>"

definition blank_conn :: env where
  "blank_conn =
     \<lparr> read_sql = (\<lambda>l q. Inr [['''']]),
       cursor_execute = (\<lambda>l q. Inr ''stub-id-123''),
       to_string = (\<lambda>df. concat (map concat df)) \<rparr>"

definition no_rows_conn :: env where
  "no_rows_conn =
     \<lparr> read_sql = (\<lambda>l q. Inr []),
       cursor_execute = (\<lambda>l q. Inr ''stub-id-123''),
       to_string = (\<lambda>df. concat (map concat df)) \<rparr>"

definition parrot_conn :: env where
  "parrot_conn =
     \<lparr> read_sql = (\<lambda>l q. Inr [[q]]),
       cursor_execute = (\<lambda>l q. Inr ''stub-id-123''),
       to_string = (\<lambda>df. concat (map concat df)) \<rparr>"



section \<open>String literals of the warehouse's SQL dialect\<close>

text \<open>
  The completion request puts the prompt between two single quotes. In Snowflake SQL a
  single-quoted string constant ends at the first single quote that is neither preceded by
  an escaping backslash nor doubled; a backslash escapes the character after it, whatever
  it is, a backslash included. \<open>literal_body s\<close> holds when \<open>s\<close>, written between the
  opening and the closing quote, is the body of exactly one such constant: no quote inside
  \<open>s\<close> ends the constant early, and \<open>s\<close> does not end in a backslash or a quote that would
  swallow the closing quote.
\<close>

fun literal_body :: "string \<Rightarrow> bool" where
  "literal_body [] = True"
| "literal_body [c] = (c \<noteq> backslash \<and> c \<noteq> squote)"
| "literal_body (c # d # cs) =
     (if c = backslash then literal_body cs
      else if c = squote then d = squote \<and> literal_body cs
      else literal_body (d # cs))"

section \<open>A completion endpoint that echoes the query\<close>






section \<open>Facts about the namespaces\<close>

lemma pd_bound_Toolkit: "''pd'' \<in> set Toolkit_globals"
  by (simp add: Toolkit_globals_def)

lemma pd_unbound_Agent: "''pd'' \<notin> set Agent_globals"
  by (simp add: Agent_globals_def)

section \<open>Query Execution Tool: result shape, dispatch, double execution\<close>




text \<open>
  Claim C6. Whatever the query string is, a \<^verbatim>\<open>DROP\<close> as much as a \<^verbatim>\<open>SELECT\<close>, the tool
  sends it to the connection as it stands: the requests added by a call are the input
  string itself, once through \<^verbatim>\<open>read_sql\<close> and, when that did not raise, once more
  through the cursor. No branch of the tool looks at the string.
\<close>

theorem query_tool_dispatches_unchanged:
  "snd (QuerySQLDataBaseTool_run e query l) = l @ [ReadSql query]
   \<or> snd (QuerySQLDataBaseTool_run e query l) = l @ [ReadSql query, CursorExecute query]"
  by (auto simp: QuerySQLDataBaseTool_run_def pd_read_sql_def pd_bound_Toolkit split: sum.splits)

text \<open>
  Claim C9. A call that returns a frame and an identifier has submitted the query twice:
  first through \<^verbatim>\<open>read_sql\<close>, which produced the returned rows, then through the cursor.
  The returned identifier is the one the connection assigned to that second execution.
\<close>

theorem query_tool_executes_twice:
  assumes "fst (QuerySQLDataBaseTool_run e query l) = Inr (Table results, Some query_id)"
  shows "snd (QuerySQLDataBaseTool_run e query l) = l @ [ReadSql query, CursorExecute query]
       \<and> read_sql e l query = Inr results
       \<and> cursor_execute e (l @ [ReadSql query]) query = Inr query_id"
  using assms
  by (auto simp: QuerySQLDataBaseTool_run_def pd_read_sql_def pd_bound_Toolkit except_Exception_def
           split: sum.splits if_splits)

theorem query_tool_executes_twice_witness:
  "QuerySQLDataBaseTool_run stub_conn ''SELECT 1'' [] =
     (Inr (Table [[''1'']], Some ''stub-id-x''), [ReadSql ''SELECT 1'', CursorExecute ''SELECT 1''])
   \<and> read_sql stub_conn [] ''SELECT 1'' = Inr [[''1'']]
   \<and> cursor_execute stub_conn [ReadSql ''SELECT 1''] ''SELECT 1'' = Inr ''stub-id-x''"
  using query_tool_executes_twice [of stub_conn "''SELECT 1''" "[]" "[[''1'']]" "''stub-id-x''"]
  by (simp add: stub_conn_def QuerySQLDataBaseTool_run_def pd_read_sql_def pd_bound_Toolkit)

section \<open>Schema Lookup Tool: sections and abort\<close>

lemma schema_loop_append:
  "schema_loop e (pre @ ts) out l =
     (case schema_loop e pre out l of
        (Inl ex, l1) \<Rightarrow> (Inl ex, l1)
      | (Inr out1, l1) \<Rightarrow> schema_loop e ts out1 l1)"
  by (induction pre arbitrary: out l) (auto split: prod.splits sum.splits)

text \<open>
  The pieces of a text are tied to the text itself: joining the pieces with commas gives
  the text back, no piece contains a comma, and every list of comma-free pieces is what
  its joined text splits into.
\<close>

lemma split_on_not_Nil: "split_on sep s \<noteq> []"
  by (induction s) (auto split: list.splits)

lemma split_on_plain: "sep \<notin> set t \<Longrightarrow> split_on sep t = [t]"
  by (induction t) auto

lemma split_on_piece: "sep \<notin> set t \<Longrightarrow> split_on sep (t @ sep # rest) = t # split_on sep rest"
  by (induction t) auto

lemma split_on_join_commas:
  "names \<noteq> [] \<Longrightarrow> \<forall>t \<in> set names. CHR '','' \<notin> set t \<Longrightarrow>
     split_on CHR '','' (join_commas names) = names"
  by (induction names rule: join_commas.induct) (simp_all add: split_on_plain split_on_piece)

lemma split_on_comma_free: "\<forall>t \<in> set (split_on sep s). sep \<notin> set t"
  by (induction s) (auto split: list.splits)

lemma join_commas_split_on: "join_commas (split_on CHR '','' s) = s"
proof (induction s)
  case Nil
  show ?case by simp
next
  case (Cons c s)
  obtain p ps where ps: "split_on CHR '','' s = p # ps"
    using split_on_not_Nil [of "CHR '',''" s] by (cases "split_on CHR '','' s") auto
  show ?case
  proof (cases "c = CHR '',''")
    case True
    then show ?thesis using Cons ps by simp
  next
    case False
    then show ?thesis using Cons ps by (cases ps) auto
  qed
qed

lemma schema_loop_all_ok:
  assumes "length dfs = length ts"
    and "\<forall>i < length ts.
           read_sql e (l @ map (\<lambda>t. ReadSql (''DESCRIBE TABLE '' @ t)) (take i ts))
             (''DESCRIBE TABLE '' @ ts ! i) = Inr (dfs ! i)"
  shows "schema_loop e ts out l =
           (Inr (out @ concat (map2 (\<lambda>t df. ''Schema for table '' @ t @ '':'' @ [newline]
                                          @ to_string e df @ [newline, newline]) ts dfs)),
            l @ map (\<lambda>t. ReadSql (''DESCRIBE TABLE '' @ t)) ts)"
  using assms
proof (induction ts arbitrary: dfs out l)
  case Nil
  then show ?case by simp
next
  case (Cons t ts)
  then obtain d ds where dfs: "dfs = d # ds" and len: "length ds = length ts"
    by (cases dfs) auto
  from Cons.prems(2) have first: "read_sql e l (''DESCRIBE TABLE '' @ t) = Inr d"
    using dfs by force
  have rest: "\<forall>i < length ts.
           read_sql e ((l @ [ReadSql (''DESCRIBE TABLE '' @ t)])
                        @ map (\<lambda>t. ReadSql (''DESCRIBE TABLE '' @ t)) (take i ts))
             (''DESCRIBE TABLE '' @ ts ! i) = Inr (ds ! i)"
  proof (intro allI impI)
    fix i assume "i < length ts"
    then have "Suc i < length (t # ts)" by simp
    with Cons.prems(2) show "read_sql e ((l @ [ReadSql (''DESCRIBE TABLE '' @ t)])
                        @ map (\<lambda>t. ReadSql (''DESCRIBE TABLE '' @ t)) (take i ts))
             (''DESCRIBE TABLE '' @ ts ! i) = Inr (ds ! i)"
      using dfs by force
  qed
  show ?case
    using Cons.IH [OF len rest] first dfs
    by (simp add: pd_read_sql_def pd_bound_Toolkit)
qed

text \<open>
  Claim C2, as amended. Let the input be the pieces \<open>names\<close> joined by commas, and let
  every description request succeed when it is made, that is, after the requests for the
  pieces before it. Then the output is one text: for each piece \<open>t\<close>, in input order, the
  line \<^verbatim>\<open>Schema for table t:\<close>, the rendered description and an empty line. A piece is
  what stands between two commas exactly as written, blanks included: the tool strips
  nothing, neither in the header nor in the request it sends.
\<close>

theorem schema_tool_sections:
  assumes "names \<noteq> []"
    and "\<forall>t \<in> set names. CHR '','' \<notin> set t"
    and "length dfs = length names"
    and "\<forall>i < length names.
           read_sql e (l @ map (\<lambda>t. ReadSql (''DESCRIBE TABLE '' @ t)) (take i names))
             (''DESCRIBE TABLE '' @ names ! i) = Inr (dfs ! i)"
  shows "InfoSnowflakeTableTool_run e (join_commas names) l =
           (Inr (concat (map2 (\<lambda>t df. ''Schema for table '' @ t @ '':'' @ [newline]
                                      @ to_string e df @ [newline, newline]) names dfs)),
            l @ map (\<lambda>t. ReadSql (''DESCRIBE TABLE '' @ t)) names)"
  using schema_loop_all_ok [OF assms(3,4), of "[]"]
  by (simp add: InfoSnowflakeTableTool_run_def split_on_join_commas [OF assms(1,2)])

theorem schema_tool_sections_witness:
  "InfoSnowflakeTableTool_run catalog_conn ''orders, users ,items'' [] =
     (Inr (''Schema for table orders:'' @ [newline] @ ''ordersNUMBER'' @ [newline, newline]
          @ ''Schema for table  users :'' @ [newline] @ '' users NUMBER'' @ [newline, newline]
          @ ''Schema for table items:'' @ [newline] @ ''itemsNUMBER'' @ [newline, newline]),
      [ReadSql ''DESCRIBE TABLE orders'', ReadSql ''DESCRIBE TABLE  users '',
       ReadSql ''DESCRIBE TABLE items''])"
proof -
  have h: "\<forall>i < length [''orders'', '' users '', ''items''].
           read_sql catalog_conn
             ([] @ map (\<lambda>t. ReadSql (''DESCRIBE TABLE '' @ t)) (take i [''orders'', '' users '', ''items'']))
             (''DESCRIBE TABLE '' @ [''orders'', '' users '', ''items''] ! i) =
           Inr ([[[''orders'', ''NUMBER'']], [['' users '', ''NUMBER'']], [[''items'', ''NUMBER'']]] ! i)"
    by (auto simp: catalog_conn_def less_Suc_eq)
  show ?thesis
    using schema_tool_sections [of "[''orders'', '' users '', ''items'']"
            "[[[''orders'', ''NUMBER'']], [['' users '', ''NUMBER'']], [[''items'', ''NUMBER'']]]"
            catalog_conn "[]", OF _ _ _ h]
    by (simp add: catalog_conn_def)
qed

text \<open>
  For the input \<^verbatim>\<open>table1, table2\<close> the second header carries the blank that follows the
  comma: no line of the output is the header of the name \<^verbatim>\<open>table2\<close>.
\<close>

theorem schema_tool_header_counterexample:
  "fst (InfoSnowflakeTableTool_run catalog_conn ''table1, table2'' []) =
     Inr (''Schema for table table1:'' @ [newline] @ ''table1NUMBER'' @ [newline, newline]
          @ ''Schema for table  table2:'' @ [newline] @ '' table2NUMBER'' @ [newline, newline])
   \<and> ''Schema for table table2:'' \<notin> set (split_on newline
         (''Schema for table table1:'' @ [newline] @ ''table1NUMBER'' @ [newline, newline]
          @ ''Schema for table  table2:'' @ [newline] @ '' table2NUMBER'' @ [newline, newline]))"
  by (simp add: InfoSnowflakeTableTool_run_def pd_read_sql_def pd_bound_Toolkit catalog_conn_def
        newline_def)

text \<open>
  Claim C5. When the tables before \<open>t\<close> in the list were described without error and the
  request for \<open>t\<close> raises, the call ends with that exception: it returns no text, the
  sections built for the earlier tables are lost, and the tables after \<open>t\<close> are never
  requested.
\<close>

theorem schema_tool_aborts:
  assumes "split_on CHR '','' table_names = pre @ t # post"
    and "schema_loop e pre [] l = (Inr out, l1)"
    and "read_sql e l1 (''DESCRIBE TABLE '' @ t) = Inl ex"
  shows "InfoSnowflakeTableTool_run e table_names l = (Inl ex, l1 @ [ReadSql (''DESCRIBE TABLE '' @ t)])"
  using assms
  by (simp add: InfoSnowflakeTableTool_run_def schema_loop_append pd_read_sql_def pd_bound_Toolkit)

theorem schema_tool_aborts_witness:
  "InfoSnowflakeTableTool_run catalog_conn ''orders,missing,users'' [] =
     (Inl (Exn ''ProgrammingError'' ''Table does not exist''),
      [ReadSql ''DESCRIBE TABLE orders'', ReadSql ''DESCRIBE TABLE missing''])"
  using schema_tool_aborts [of "''orders,missing,users''" "[''orders'']" "''missing''" "[''users'']"
          catalog_conn "[]" _ "[ReadSql ''DESCRIBE TABLE orders'']" "Exn ''ProgrammingError'' ''Table does not exist''"]
  by (simp add: catalog_conn_def pd_read_sql_def pd_bound_Toolkit)

section \<open>Query Checker Tool: prompt construction and pass-through\<close>

lemma escape_quotes_Nil: "escape_quotes [] = []"
  by (simp add: escape_quotes_def replace_char_def)

lemma escape_quotes_Cons:
  "escape_quotes (c # cs) =
     (if c = dquote then [backslash, dquote]
      else if c = squote then [backslash, squote] else [c]) @ escape_quotes cs"
  by (simp add: escape_quotes_def replace_char_def squote_def dquote_def backslash_def)

lemma checker_prompt_eq:
  "checker_prompt query = Inr (template_head @ escape_quotes query @ template_tail)"
  by (simp add: checker_prompt_def format_py_def template_def template_head_def template_tail_def newline_def squote_def)

text \<open>
  Claim C7, as amended. The tool sends the completion request once and returns the first
  cell of the answer exactly as the endpoint gave it, whatever it holds, the empty text
  included: nothing is trimmed, retried or checked. An answer without a first cell raises
  \<^verbatim>\<open>IndexError\<close>, and an exception raised by the request leaves the tool unchanged.
\<close>

theorem checker_returns_first_cell:
  "(let request = cortex_query (template_head @ escape_quotes query @ template_tail) in
      (read_sql e l request = Inr ((c # row) # rows) \<longrightarrow>
         QuerySQLCheckerTool_run e query l = (Inr c, l @ [ReadSql request]))
    \<and> (read_sql e l request = Inr [] \<or> read_sql e l request = Inr ([] # rows) \<longrightarrow>
         QuerySQLCheckerTool_run e query l =
           (Inl (Exn ''IndexError'' ''single positional indexer is out-of-bounds''),
            l @ [ReadSql request]))
    \<and> (read_sql e l request = Inl ex \<longrightarrow>
         QuerySQLCheckerTool_run e query l = (Inl ex, l @ [ReadSql request])))"
  by (auto simp: Let_def QuerySQLCheckerTool_run_def checker_prompt_eq pd_read_sql_def pd_bound_Toolkit)

theorem checker_returns_first_cell_witness:
  "fst (QuerySQLCheckerTool_run blank_conn ''SELECT 1'' []) = Inr ''''
   \<and> fst (QuerySQLCheckerTool_run no_rows_conn ''SELECT 1'' []) =
        Inl (Exn ''IndexError'' ''single positional indexer is out-of-bounds'')
   \<and> fst (QuerySQLCheckerTool_run stub_conn ''SELECT 1'' []) =
        Inl (Exn ''ProgrammingError'' ''SQL compilation error'')"
  using checker_returns_first_cell [where e = blank_conn and l = "[]" and query = "''SELECT 1''"
          and c = "[]" and row = "[]" and rows = "[]"]
        checker_returns_first_cell [where e = no_rows_conn and l = "[]" and query = "''SELECT 1''"
          and rows = "[]"]
        checker_returns_first_cell [where e = stub_conn and l = "[]" and query = "''SELECT 1''"
          and ex = "Exn ''ProgrammingError'' ''SQL compilation error''"]
  by (simp add: Let_def blank_conn_def no_rows_conn_def stub_conn_def cortex_query_def)

text \<open>
  Nothing is removed from the answer: when the endpoint answers with the text of the
  request, the output holds the whole prompt template. And an answer with no rows is not
  passed through but raises.
\<close>

theorem checker_template_counterexample:
  "fst (QuerySQLCheckerTool_run parrot_conn ''SELECT 1'' []) =
     Inr (''SELECT SNOWFLAKE.CORTEX.COMPLETE('' @ [squote] @ ''snowflake-arctic'' @ [squote]
          @ '', '' @ [squote] @ template_head @ ''SELECT 1'' @ template_tail @ [squote] @ '');'')
   \<and> fst (QuerySQLCheckerTool_run no_rows_conn ''SELECT 1'' []) =
        Inl (Exn ''IndexError'' ''single positional indexer is out-of-bounds'')"
  by (simp add: QuerySQLCheckerTool_run_def checker_prompt_eq pd_read_sql_def pd_bound_Toolkit
        parrot_conn_def no_rows_conn_def cortex_query_def escape_quotes_Cons escape_quotes_Nil
        squote_def dquote_def)

text \<open>
  Claim C10, as amended. For every query, one with curly braces included, building the
  prompt does not raise: \<^verbatim>\<open>format\<close> scans the template only and inserts the escaped
  query as it is. The completion request is then sent, exactly once.
\<close>

theorem checker_formats_braces:
  "checker_prompt query = Inr (template_head @ escape_quotes query @ template_tail)
   \<and> snd (QuerySQLCheckerTool_run e query l) =
       l @ [ReadSql (cortex_query (template_head @ escape_quotes query @ template_tail))]"
  by (simp add: checker_prompt_eq QuerySQLCheckerTool_run_def pd_read_sql_def pd_bound_Toolkit
           split: sum.splits)

text \<open>
  A query with braces goes through: the prompt is built, the request is sent, and the
  answer of the endpoint comes back.
\<close>

theorem checker_braces_counterexample:
  "fst (QuerySQLCheckerTool_run blank_conn ''SELECT {x}'' []) = Inr ''''
   \<and> snd (QuerySQLCheckerTool_run blank_conn ''SELECT {x}'' []) =
       [ReadSql (cortex_query (template_head @ ''SELECT {x}'' @ template_tail))]"
  by (simp add: QuerySQLCheckerTool_run_def checker_prompt_eq pd_read_sql_def pd_bound_Toolkit
        blank_conn_def escape_quotes_def replace_char_def squote_def dquote_def)

section \<open>Query Checker Tool: the escaping step\<close>

text \<open>
  The escaping puts a backslash before every quote and leaves every other character,
  a backslash included, as it is. On a query without a backslash the prompt stays one
  string constant.
\<close>

lemma literal_body_plain:
  "c \<noteq> squote \<Longrightarrow> c \<noteq> backslash \<Longrightarrow> literal_body (c # cs) = literal_body cs"
  by (cases cs) simp_all

lemma literal_body_escaped: "literal_body (backslash # d # cs) = literal_body cs"
  by simp

lemma literal_body_escape_quotes:
  "backslash \<notin> set query \<Longrightarrow> literal_body (escape_quotes query @ rest) = literal_body rest"
proof (induction query)
  case Nil
  show ?case by (simp add: escape_quotes_Nil)
next
  case (Cons c cs)
  then have ih: "literal_body (escape_quotes cs @ rest) = literal_body rest" and c: "c \<noteq> backslash"
    by auto
  show ?case
  proof (cases "c = dquote \<or> c = squote")
    case True
    then show ?thesis using ih by (auto simp: escape_quotes_Cons)
  next
    case False
    then show ?thesis using ih c by (simp add: escape_quotes_Cons literal_body_plain)
  qed
qed

lemma literal_body_template_tail: "literal_body template_tail"
  by (simp add: template_tail_def newline_def squote_def backslash_def)

lemma escaping_sound_without_backslash:
  "backslash \<notin> set query \<Longrightarrow>
     literal_body (template_head @ escape_quotes query @ template_tail)"
proof -
  assume "backslash \<notin> set query"
  then have "literal_body (escape_quotes query @ template_tail)"
    by (simp add: literal_body_escape_quotes literal_body_template_tail)
  then show ?thesis
    by (simp add: template_head_def literal_body_plain newline_def squote_def backslash_def)
qed

text \<open>
  Claim C3. The claim fails on the two-character query \<^verbatim>\<open>\'\<close>, a backslash followed by
  a single quote. The escaped text is \<^verbatim>\<open>\\'\<close>: the two backslashes read as one escaped
  backslash, and the quote after them ends the string constant in the middle of the
  prompt.
\<close>

theorem checker_escaping_breaks_on_backslash:
  "checker_prompt [backslash, squote] =
     Inr (template_head @ [backslash, backslash, squote] @ template_tail)
   \<and> \<not> literal_body (template_head @ [backslash, backslash, squote] @ template_tail)"
  by (simp add: checker_prompt_eq escape_quotes_Cons escape_quotes_Nil template_head_def
        template_tail_def newline_def squote_def backslash_def dquote_def)

section \<open>Query Checker Tool: idempotence against an echoing endpoint\<close>










section \<open>Completion Client\<close>

text \<open>
  Claim C4. In \<^verbatim>\<open>Agent.py\<close> the name \<^verbatim>\<open>pd\<close> is not bound, so for every prompt the call
  raises \<^verbatim>\<open>NameError\<close> and nothing is sent to the connection.
\<close>

theorem completion_client_name_error:
  "SnowflakeCortexLLM_call e prompt l = (Inl (name_error ''pd''), l)"
  by (simp add: SnowflakeCortexLLM_call_def cortex_call_def pd_read_sql_def pd_unbound_Agent)

text \<open>
  The same body in a module that imports pandas sends the request once and returns the
  first cell of the answer.
\<close>

lemma cortex_call_with_pandas:
  assumes "''pd'' \<in> set globals"
    and "read_sql e l (cortex_query prompt) = Inr ((c # row) # rows)"
  shows "cortex_call globals e prompt l = (Inr c, l @ [ReadSql (cortex_query prompt)])"
  using assms by (simp add: cortex_call_def pd_read_sql_def)

end
